theory Spec2Isabelle
  imports Complex_Main
begin

section \<open>The animated grid stylesheet\<close>

text \<open>
  The staggered grid reveal is the stylesheet at the head of \<^verbatim>\<open>src/unnamed/part_000\<close>
  (lines 1 to 110): one rule for the grid container \<^verbatim>\<open>.animated-grid\<close>, twelve rules
  \<^verbatim>\<open>.card:nth-child(k)\<close>, one rule \<^verbatim>\<open>.card:last-child\<close>, the keyframes
  \<^verbatim>\<open>cardEffect\<close> and the rule \<^verbatim>\<open>.card\<close>. The stylesheet is embedded as data, rule by
  rule in source order, and the part of the CSS cascade it relies on (selector matching,
  specificity, source order, the \<^verbatim>\<open>animation\<close> shorthand, \<^verbatim>\<open>var()\<close> substitution) as
  functions over that data.

  The template names its merged area with the character U+1F31F; the embedding writes
  that identifier \<open>''star''\<close>.
\<close>

subsection \<open>Syntax of the stylesheet\<close>

datatype pseudo = NthChild nat | LastChild

text \<open>A compound selector: a class followed by pseudo-classes.\<close>

datatype selector = Sel string "pseudo list"

text \<open>
  A time: a literal number of milliseconds, or \<^verbatim>\<open>calc(k * var(--name))\<close>.
\<close>

datatype time_value = Ms int | CalcMulVar int string

datatype timing_function = Ease | EaseOut

datatype fill_mode = FillNone | Backwards

datatype property =
    PGridTemplateAreas
  | PGridArea
  | PAnimationName
  | PAnimationDuration
  | PAnimationTimingFunction
  | PAnimationDelay
  | PAnimationFillMode
  | PCustom string
  | POther string

datatype decl =
    Other string string
  | GridTemplateAreas "string list list"
  | GridTemplateColumns "string list"
  | GridTemplateRows "string list"
  | CustomProperty string int
  | GridArea string
  | AnimationDelay time_value
  | Animation string int timing_function
  | AnimationName string
  | AnimationDuration int
  | AnimationTimingFunction timing_function
  | AnimationFillMode fill_mode

type_synonym rule = "selector \<times> decl list"

subsection \<open>The rules, in source order\<close>

definition grid_template_areas :: "string list list" where
  "grid_template_areas =
    [[''a'', ''b'',    ''c'',    ''d''],
     [''l'', ''star'', ''star'', ''e''],
     [''k'', ''star'', ''star'', ''f''],
     [''j'', ''i'',    ''h'',    ''g'']]"

definition grid_template_columns :: "string list" where
  "grid_template_columns = [''240px'', ''auto'', ''auto'', ''240px'']"

definition grid_template_rows :: "string list" where
  "grid_template_rows = replicate 4 ''25%''"

definition stylesheet :: "rule list" where
  "stylesheet =
    [(Sel ''animated-grid'' [],
        [Other ''height'' ''85vh'',
         Other ''display'' ''grid'',
         Other ''gap'' ''1rem'',
         GridTemplateAreas grid_template_areas,
         GridTemplateColumns grid_template_columns,
         GridTemplateRows grid_template_rows,
         CustomProperty ''--stagger-delay'' 100]),
     (Sel ''card'' [NthChild 1],
        [GridArea ''a'', AnimationDelay (CalcMulVar 1 ''--stagger-delay'')]),
     (Sel ''card'' [NthChild 2],
        [GridArea ''b'', AnimationDelay (CalcMulVar 2 ''--stagger-delay'')]),
     (Sel ''card'' [NthChild 3],
        [GridArea ''c'', AnimationDelay (CalcMulVar 3 ''--stagger-delay'')]),
     (Sel ''card'' [NthChild 4],
        [GridArea ''d'', AnimationDelay (CalcMulVar 4 ''--stagger-delay'')]),
     (Sel ''card'' [NthChild 5],
        [GridArea ''e'', AnimationDelay (CalcMulVar 5 ''--stagger-delay'')]),
     (Sel ''card'' [NthChild 6],
        [GridArea ''f'', AnimationDelay (CalcMulVar 6 ''--stagger-delay'')]),
     (Sel ''card'' [NthChild 7],
        [GridArea ''g'', AnimationDelay (CalcMulVar 7 ''--stagger-delay'')]),
     (Sel ''card'' [NthChild 8],
        [GridArea ''h'', AnimationDelay (CalcMulVar 8 ''--stagger-delay'')]),
     (Sel ''card'' [NthChild 9],
        [GridArea ''i'', AnimationDelay (CalcMulVar 9 ''--stagger-delay'')]),
     (Sel ''card'' [NthChild 10],
        [GridArea ''j'', AnimationDelay (CalcMulVar 10 ''--stagger-delay'')]),
     (Sel ''card'' [NthChild 11],
        [GridArea ''k'', AnimationDelay (CalcMulVar 11 ''--stagger-delay'')]),
     (Sel ''card'' [NthChild 12],
        [GridArea ''l'', AnimationDelay (CalcMulVar 12 ''--stagger-delay'')]),
     (Sel ''card'' [LastChild],
        [GridArea ''star'', AnimationDelay (CalcMulVar 13 ''--stagger-delay'')]),
     (Sel ''card'' [],
        [Other ''background-color'' ''rgb(36,243, 147)'',
         Animation ''cardEffect'' 700 EaseOut,
         AnimationFillMode Backwards])]"

subsection \<open>The keyframes\<close>

text \<open>
  A keyframe of \<^verbatim>\<open>cardEffect\<close> sets \<^verbatim>\<open>opacity\<close>, \<^verbatim>\<open>transform: scale(s)\<close> and
  \<^verbatim>\<open>filter: hue-rotate(d deg)\<close>.
\<close>

record keyframe =
  opacity :: rat
  scale :: rat
  hue_rotate :: int

record keyframes =
  kf_from :: keyframe
  kf_to :: keyframe

definition cardEffect :: keyframes where
  "cardEffect =
    \<lparr>kf_from = \<lparr>opacity = 0, scale = 3 / 10, hue_rotate = 180\<rparr>,
     kf_to = \<lparr>opacity = 1, scale = 1, hue_rotate = 0\<rparr>\<rparr>"

definition keyframes_rules :: "(string \<times> keyframes) list" where
  "keyframes_rules = [(''cardEffect'', cardEffect)]"

section \<open>The cascade\<close>

text \<open>
  An element, as far as the selectors of this stylesheet can see it: its classes, its
  1-based position among the children of its parent, the number of those children, and
  the custom properties it inherits from its parent.
\<close>

record element =
  classes :: "string list"
  position :: nat
  sibling_count :: nat
  inherited :: "string \<rightharpoonup> int"

fun matches_pseudo :: "element \<Rightarrow> pseudo \<Rightarrow> bool" where
  "matches_pseudo e (NthChild n) = (position e = n)"
| "matches_pseudo e LastChild = (position e = sibling_count e)"

fun matches :: "selector \<Rightarrow> element \<Rightarrow> bool" where
  "matches (Sel c ps) e = (c \<in> set (classes e) \<and> list_all (matches_pseudo e) ps)"

text \<open>
  Classes and pseudo-classes weigh the same, and the stylesheet has no id and no type
  selector: the specificity of a selector is the number of its classes and pseudo-classes.
\<close>

fun specificity :: "selector \<Rightarrow> nat" where
  "specificity (Sel c ps) = Suc (length ps)"

text \<open>
  The \<^verbatim>\<open>animation\<close> shorthand sets every animation longhand: those it does not mention
  are reset to their initial values (delay \<^verbatim>\<open>0s\<close>, fill mode \<^verbatim>\<open>none\<close>, ...).
\<close>

fun expand :: "decl \<Rightarrow> decl list" where
  "expand (Animation name dur tf) =
     [AnimationName name, AnimationDuration dur, AnimationTimingFunction tf,
      AnimationDelay (Ms 0), Other ''animation-iteration-count'' ''1'',
      Other ''animation-direction'' ''normal'', AnimationFillMode FillNone,
      Other ''animation-play-state'' ''running'']"
| "expand d = [d]"

fun property_of :: "decl \<Rightarrow> property" where
  "property_of (Other p v) = POther p"
| "property_of (GridTemplateAreas t) = PGridTemplateAreas"
| "property_of (GridTemplateColumns ts) = POther ''grid-template-columns''"
| "property_of (GridTemplateRows ts) = POther ''grid-template-rows''"
| "property_of (CustomProperty n v) = PCustom n"
| "property_of (GridArea a) = PGridArea"
| "property_of (AnimationDelay t) = PAnimationDelay"
| "property_of (Animation name dur tf) = POther ''animation''"
| "property_of (AnimationName name) = PAnimationName"
| "property_of (AnimationDuration dur) = PAnimationDuration"
| "property_of (AnimationTimingFunction tf) = PAnimationTimingFunction"
| "property_of (AnimationFillMode fm) = PAnimationFillMode"

text \<open>
  The declarations that apply to an element, in source order, each with the specificity
  of its rule's selector.
\<close>

fun rule_decls :: "element \<Rightarrow> rule \<Rightarrow> (nat \<times> decl) list" where
  "rule_decls e (sel, ds) =
     (if matches sel e then map (Pair (specificity sel)) (concat (map expand ds)) else [])"

definition declared :: "rule list \<Rightarrow> element \<Rightarrow> (nat \<times> decl) list" where
  "declared sheet e = concat (map (rule_decls e) sheet)"

text \<open>
  Among the declarations of one property the most specific wins, and among equally
  specific ones the last in source order.
\<close>

fun pick :: "(nat \<times> decl) option \<Rightarrow> nat \<times> decl \<Rightarrow> (nat \<times> decl) option" where
  "pick None c = Some c"
| "pick (Some (s, d)) (s', d') = (if s \<le> s' then Some (s', d') else Some (s, d))"

definition cascaded :: "rule list \<Rightarrow> element \<Rightarrow> property \<Rightarrow> decl option" where
  "cascaded sheet e p =
     map_option snd (foldl pick None (filter (\<lambda>c. property_of (snd c) = p) (declared sheet e)))"

subsection \<open>Computed values\<close>

text \<open>
  A custom property is inherited: an element has the value its own rules declare, and
  otherwise the value of its parent.
\<close>

definition custom_property :: "element \<Rightarrow> string \<Rightarrow> int option" where
  "custom_property e n =
     (case cascaded stylesheet e (PCustom n) of
        Some (CustomProperty m v) \<Rightarrow> Some v
      | _ \<Rightarrow> inherited e n)"

text \<open>
  \<^verbatim>\<open>var(--name)\<close> has no fallback in this stylesheet: when the custom property has no
  value the declaration is invalid at computed-value time (\<open>None\<close>).
\<close>

fun resolve_time :: "element \<Rightarrow> time_value \<Rightarrow> int option" where
  "resolve_time e (Ms n) = Some n"
| "resolve_time e (CalcMulVar k v) = map_option (\<lambda>u. k * u) (custom_property e v)"

text \<open>
  The computed \<^verbatim>\<open>animation-delay\<close> in milliseconds; the initial value is \<^verbatim>\<open>0s\<close>, which
  is also the value of a declaration that is invalid at computed-value time.
\<close>

definition animation_delay :: "element \<Rightarrow> int" where
  "animation_delay e =
     (case cascaded stylesheet e PAnimationDelay of
        Some (AnimationDelay t) \<Rightarrow> (case resolve_time e t of Some n \<Rightarrow> n | None \<Rightarrow> 0)
      | _ \<Rightarrow> 0)"

text \<open>The computed \<^verbatim>\<open>grid-area\<close>; \<open>None\<close> is the initial value \<^verbatim>\<open>auto\<close>.\<close>

definition grid_area :: "element \<Rightarrow> string option" where
  "grid_area e =
     (case cascaded stylesheet e PGridArea of Some (GridArea a) \<Rightarrow> Some a | _ \<Rightarrow> None)"

text \<open>The other animation longhands, and the keyframes the animation name refers to.\<close>

record animation =
  anim_keyframes :: "keyframes option"
  anim_duration :: int
  anim_timing :: timing_function
  anim_fill :: fill_mode

definition animation_name :: "element \<Rightarrow> string option" where
  "animation_name e =
     (case cascaded stylesheet e PAnimationName of Some (AnimationName n) \<Rightarrow> Some n | _ \<Rightarrow> None)"

definition animation_duration :: "element \<Rightarrow> int" where
  "animation_duration e =
     (case cascaded stylesheet e PAnimationDuration of Some (AnimationDuration d) \<Rightarrow> d | _ \<Rightarrow> 0)"

definition animation_timing_function :: "element \<Rightarrow> timing_function" where
  "animation_timing_function e =
     (case cascaded stylesheet e PAnimationTimingFunction of
        Some (AnimationTimingFunction tf) \<Rightarrow> tf
      | _ \<Rightarrow> Ease)"

definition animation_fill_mode :: "element \<Rightarrow> fill_mode" where
  "animation_fill_mode e =
     (case cascaded stylesheet e PAnimationFillMode of
        Some (AnimationFillMode fm) \<Rightarrow> fm
      | _ \<Rightarrow> FillNone)"

definition entry_animation :: "element \<Rightarrow> animation" where
  "entry_animation e =
     \<lparr>anim_keyframes =
        (case animation_name e of None \<Rightarrow> None | Some n \<Rightarrow> map_of keyframes_rules n),
      anim_duration = animation_duration e,
      anim_timing = animation_timing_function e,
      anim_fill = animation_fill_mode e\<rparr>"

section \<open>Cards in the grid\<close>

text \<open>
  The grid container, and the \<open>i\<close>-th of \<open>N\<close> cards in a container whose custom
  properties are \<open>vars\<close>.
\<close>

definition animated_grid :: element where
  "animated_grid =
     \<lparr>classes = [''animated-grid''], position = 1, sibling_count = 1, inherited = Map.empty\<rparr>"

definition card_elem :: "nat \<Rightarrow> nat \<Rightarrow> (string \<rightharpoonup> int) \<Rightarrow> element" where
  "card_elem i N vars = \<lparr>classes = [''card''], position = i, sibling_count = N, inherited = vars\<rparr>"

text \<open>
  With \<^verbatim>\<open>animation-fill-mode: backwards\<close> an element shows the first keyframe of its
  animation while the animation delay runs; with \<^verbatim>\<open>none\<close> the animation does not
  affect it before it starts.
\<close>

definition pending_style :: "animation \<Rightarrow> keyframe option" where
  "pending_style a =
     (case anim_fill a of
        Backwards \<Rightarrow> map_option kf_from (anim_keyframes a)
      | FillNone \<Rightarrow> None)"

text \<open>
  \<open>region i N\<close> is the grid area of item \<open>i\<close> of \<open>N\<close>, and \<open>delay i N u\<close> its animation
  delay when the unit delay \<^verbatim>\<open>--stagger-delay\<close> of the container is \<open>u\<close> milliseconds.
\<close>

definition region :: "nat \<Rightarrow> nat \<Rightarrow> string option" where
  "region i N = grid_area (card_elem i N Map.empty)"

definition delay :: "nat \<Rightarrow> nat \<Rightarrow> int \<Rightarrow> int" where
  "delay i N u = animation_delay (card_elem i N [''--stagger-delay'' \<mapsto> u])"

text \<open>The fixed enumeration of the single-cell areas.\<close>

definition labels :: "string list" where
  "labels = [''a'', ''b'', ''c'', ''d'', ''e'', ''f'', ''g'', ''h'', ''i'', ''j'', ''k'', ''l'']"

subsection \<open>The areas of the template\<close>

definition area_names :: "string list list \<Rightarrow> string list" where
  "area_names t = remdups (concat t)"

text \<open>The cells (row, column), 0-based, that a name occupies in a template.\<close>

definition cells :: "string list list \<Rightarrow> string \<Rightarrow> (nat \<times> nat) list" where
  "cells t a =
     concat (map (\<lambda>r. map (Pair r) (filter (\<lambda>c. t ! r ! c = a) [0..<length (t ! r)]))
                 [0..<length t])"

subsection \<open>The declarations that reach a card\<close>

text \<open>
  What the rules \<^verbatim>\<open>.card:nth-child(k)\<close>, \<^verbatim>\<open>.card:last-child\<close> and \<^verbatim>\<open>.card\<close> contribute
  to a card, each declaration with the specificity of its rule.
\<close>

definition nth_child_decls :: "nat \<Rightarrow> (nat \<times> decl) list" where
  "nth_child_decls i =
     (if 1 \<le> i \<and> i \<le> 12
      then [(2, GridArea (labels ! (i - 1))),
            (2, AnimationDelay (CalcMulVar (int i) ''--stagger-delay''))]
      else [])"

definition last_child_decls :: "bool \<Rightarrow> (nat \<times> decl) list" where
  "last_child_decls b =
     (if b then [(2, GridArea ''star''), (2, AnimationDelay (CalcMulVar 13 ''--stagger-delay''))]
      else [])"

definition card_decls :: "(nat \<times> decl) list" where
  "card_decls = map (Pair 1)
     [Other ''background-color'' ''rgb(36,243, 147)'',
      AnimationName ''cardEffect'', AnimationDuration 700, AnimationTimingFunction EaseOut,
      AnimationDelay (Ms 0), Other ''animation-iteration-count'' ''1'',
      Other ''animation-direction'' ''normal'', AnimationFillMode FillNone,
      Other ''animation-play-state'' ''running'',
      AnimationFillMode Backwards]"

section \<open>Properties of the cascade on cards\<close>

lemma position_cases:
  fixes i :: nat
  obtains "i = 0" | "i = 1" | "i = 2" | "i = 3" | "i = 4" | "i = 5" | "i = 6" | "i = 7"
    | "i = 8" | "i = 9" | "i = 10" | "i = 11" | "i = 12" | "12 < i"
proof -
  have "i = 0 \<or> i = 1 \<or> i = 2 \<or> i = 3 \<or> i = 4 \<or> i = 5 \<or> i = 6 \<or> i = 7
    \<or> i = 8 \<or> i = 9 \<or> i = 10 \<or> i = 11 \<or> i = 12 \<or> 12 < i"
    by arith
  then show thesis
    using that by blast
qed

text \<open>
  At most one \<^verbatim>\<open>nth-child\<close> rule matches a card, then \<^verbatim>\<open>last-child\<close> when the card is
  the last, then \<^verbatim>\<open>.card\<close>; the container's rule never does.
\<close>

lemma declared_card_elem:
  "declared stylesheet (card_elem i N vars) =
     nth_child_decls i @ last_child_decls (i = N) @ card_decls"
  by (cases i rule: position_cases)
     (simp_all add: declared_def stylesheet_def card_elem_def nth_child_decls_def
        last_child_decls_def card_decls_def labels_def)

lemmas card_cascade =
  cascaded_def declared_card_elem nth_child_decls_def last_child_decls_def card_decls_def

lemma grid_area_nth:
  "1 \<le> i \<Longrightarrow> i \<le> 12 \<Longrightarrow> i \<noteq> N \<Longrightarrow>
   grid_area (card_elem i N vars) = Some (labels ! (i - 1))"
  by (simp add: grid_area_def card_cascade)

lemma grid_area_last: "grid_area (card_elem N N vars) = Some ''star''"
  by (simp add: grid_area_def card_cascade)

lemma grid_area_beyond:
  "\<not> (1 \<le> i \<and> i \<le> 12) \<Longrightarrow> i \<noteq> N \<Longrightarrow> grid_area (card_elem i N vars) = None"
  by (auto simp add: grid_area_def card_cascade)

text \<open>No rule gives a card a custom property of its own: it has those of its parent.\<close>

lemma custom_property_card_elem: "custom_property (card_elem i N vars) n = vars n"
  by (simp add: custom_property_def card_cascade) (simp add: card_elem_def)

lemma animation_delay_nth:
  "1 \<le> i \<Longrightarrow> i \<le> 12 \<Longrightarrow> i \<noteq> N \<Longrightarrow>
   animation_delay (card_elem i N vars) =
     (case vars ''--stagger-delay'' of Some u \<Rightarrow> int i * u | None \<Rightarrow> 0)"
  by (simp add: animation_delay_def card_cascade custom_property_card_elem
        split: option.splits)

lemma animation_delay_last:
  "animation_delay (card_elem N N vars) =
     (case vars ''--stagger-delay'' of Some u \<Rightarrow> 13 * u | None \<Rightarrow> 0)"
  by (simp add: animation_delay_def card_cascade custom_property_card_elem
        split: option.splits)

lemma animation_delay_beyond:
  "\<not> (1 \<le> i \<and> i \<le> 12) \<Longrightarrow> i \<noteq> N \<Longrightarrow> animation_delay (card_elem i N vars) = 0"
  by (auto simp add: animation_delay_def card_cascade)

lemma entry_animation_card_elem:
  "entry_animation (card_elem i N vars) =
     \<lparr>anim_keyframes = Some cardEffect, anim_duration = 700, anim_timing = EaseOut,
      anim_fill = Backwards\<rparr>"
  by (simp add: entry_animation_def animation_name_def animation_duration_def
        animation_timing_function_def animation_fill_mode_def keyframes_rules_def
        card_cascade)

lemma custom_property_animated_grid:
  "custom_property animated_grid ''--stagger-delay'' = Some 100"
  by (simp add: custom_property_def cascaded_def declared_def stylesheet_def
        animated_grid_def)

lemma labels_not_star: "1 \<le> i \<Longrightarrow> i \<le> 12 \<Longrightarrow> labels ! (i - 1) \<noteq> ''star''"
  by (cases i rule: position_cases) (simp_all add: labels_def)

section \<open>The region map\<close>

text \<open>
  C2: for every total count \<open>N \<ge> 1\<close> the last item, at position \<open>N\<close>, is assigned the
  merged area \<open>star\<close>. The rule \<^verbatim>\<open>.card:last-child\<close> is as specific as the positional
  rules and comes after them, so it overrides the label that position \<open>N\<close> would have
  among \<open>a\<close> to \<open>l\<close>.
\<close>

theorem region_last_is_star:
  "1 \<le> N \<Longrightarrow>
   region N N = Some ''star'' \<and> (N \<le> 12 \<longrightarrow> region N N \<noteq> Some (labels ! (N - 1)))"
  using labels_not_star [of N] by (auto simp add: region_def grid_area_last)

theorem region_last_is_star_witness:
  "region 5 5 = Some ''star'' \<and> region 5 5 \<noteq> Some ''e''"
  using region_last_is_star [of 5] by (simp add: labels_def)

text \<open>
  C3: for every position \<open>i\<close> from 1 to 12 and every total count \<open>N \<ge> 13\<close>, item \<open>i\<close> is
  assigned the \<open>i\<close>-th label of the sequence \<open>a, b, c, d, e, f, g, h, i, j, k, l\<close>.
\<close>

theorem region_positional:
  "1 \<le> i \<Longrightarrow> i \<le> 12 \<Longrightarrow> 13 \<le> N \<Longrightarrow>
   region i N =
     Some ([''a'', ''b'', ''c'', ''d'', ''e'', ''f'', ''g'', ''h'', ''i'', ''j'', ''k'', ''l''] ! (i - 1))"
  using grid_area_nth [of i N Map.empty] by (simp add: region_def labels_def)

theorem region_positional_witness:
  "region 9 13 = Some ''i'' \<and> region 12 40 = Some ''l''"
  using region_positional [of 9 13] region_positional [of 12 40] by simp

text \<open>
  C5: the template has four rows of four cells and names exactly 13 areas: the twelve
  labels \<open>a\<close> to \<open>l\<close>, each on a single cell, and the area \<open>star\<close> on the 2 by 2 block of
  rows 1 to 2 and columns 1 to 2 (counted from 0), which is the area of the last item.
  The column and row track lists have four entries each.
\<close>

theorem template_areas:
  "cascaded stylesheet animated_grid PGridTemplateAreas
     = Some (GridTemplateAreas grid_template_areas)
   \<and> map length grid_template_areas = [4, 4, 4, 4]
   \<and> length grid_template_columns = 4 \<and> length grid_template_rows = 4
   \<and> length (area_names grid_template_areas) = 13
   \<and> set (area_names grid_template_areas) = set (labels @ [''star''])
   \<and> map (cells grid_template_areas) labels =
       [[(0, 0)], [(0, 1)], [(0, 2)], [(0, 3)], [(1, 3)], [(2, 3)],
        [(3, 3)], [(3, 2)], [(3, 1)], [(3, 0)], [(2, 0)], [(1, 0)]]
   \<and> cells grid_template_areas ''star'' = [(1, 1), (1, 2), (2, 1), (2, 2)]
   \<and> region N N = Some ''star''"
proof -
  have sheet: "cascaded stylesheet animated_grid PGridTemplateAreas
      = Some (GridTemplateAreas grid_template_areas)"
    by (simp add: cascaded_def declared_def stylesheet_def animated_grid_def)
  have shape: "map length grid_template_areas = [4, 4, 4, 4]"
    by (simp add: grid_template_areas_def)
  have tracks: "length grid_template_columns = 4 \<and> length grid_template_rows = 4"
    by (simp add: grid_template_columns_def grid_template_rows_def)
  have names: "area_names grid_template_areas =
      [''a'', ''b'', ''c'', ''d'', ''l'', ''e'', ''k'', ''star'', ''f'', ''j'', ''i'', ''h'', ''g'']"
    by (simp add: grid_template_areas_def area_names_def)
  have count: "length (area_names grid_template_areas) = 13"
    by (simp add: names)
  have same: "set (area_names grid_template_areas) = set (labels @ [''star''])"
    unfolding names labels_def by auto
  have single: "map (cells grid_template_areas) labels =
       [[(0, 0)], [(0, 1)], [(0, 2)], [(0, 3)], [(1, 3)], [(2, 3)],
        [(3, 3)], [(3, 2)], [(3, 1)], [(3, 0)], [(2, 0)], [(1, 0)]]"
    by (simp add: grid_template_areas_def cells_def upt_conv_Cons labels_def)
  have merged: "cells grid_template_areas ''star'' = [(1, 1), (1, 2), (2, 1), (2, 2)]"
    by (simp add: grid_template_areas_def cells_def upt_conv_Cons)
  have last: "region N N = Some ''star''"
    by (simp add: region_def grid_area_last)
  from sheet shape tracks count same single merged last show ?thesis
    by blast
qed

section \<open>The stagger scheduler\<close>

text \<open>
  C1, as the claim states it, fails at the last item: of 5 items with a unit delay of 50ms
  the fifth has a delay of 650ms, not 5 times 50ms.
\<close>

theorem delay_linear_counterexample: "delay 5 5 50 \<noteq> int 5 * 50"
  by (simp add: delay_def animation_delay_last)

text \<open>
  C1 (amended): for every position \<open>i\<close> from 1 to 12 that is not the last (\<open>i \<noteq> N\<close>) and
  every unit delay \<open>u > 0\<close>, the animation delay of item \<open>i\<close> is \<open>i * u\<close>, and for fixed
  \<open>u\<close> the delay is strictly increasing in \<open>i\<close> over these positions.
\<close>

theorem delay_linear:
  "0 < u \<Longrightarrow> 1 \<le> i \<Longrightarrow> i \<le> 12 \<Longrightarrow> i \<noteq> N \<Longrightarrow>
   delay i N u = int i * u
   \<and> (i < j \<and> j \<le> 12 \<and> j \<noteq> N \<longrightarrow> delay i N u < delay j N u)"
  by (simp add: delay_def animation_delay_nth)

theorem delay_linear_witness:
  "delay 3 13 100 = 300 \<and> delay 3 13 100 < delay 7 13 100"
  using delay_linear [of 100 3 13 7] by simp

text \<open>
  C4, as the claim states it, fails on the delay: the fifth of 5 items is in the area
  \<open>star\<close>, and its delay with a unit of 50ms is not 250ms.
\<close>

theorem scenario_five_counterexample:
  "\<not> (region 5 5 = Some ''star'' \<and> region 5 5 \<noteq> Some ''e'' \<and> delay 5 5 50 = 250)"
  by (simp add: delay_def animation_delay_last)

text \<open>
  C4 (amended): for \<open>N = 5\<close> and a unit delay of 50ms, the item at position 5 is assigned
  the area \<open>star\<close> (not \<open>e\<close>) and its animation delay is 650ms, 13 times the unit.
\<close>

theorem scenario_five:
  "region 5 5 = Some ''star'' \<and> region 5 5 \<noteq> Some ''e'' \<and> delay 5 5 50 = 650"
  by (simp add: region_def delay_def grid_area_last animation_delay_last)

text \<open>
  C6, as the claim states it, fails for 14 items: position 13 is neither one of the twelve
  positions with a rule nor the last, its delay is the 0ms of the \<^verbatim>\<open>animation\<close>
  shorthand, and the delay drops from 1200ms at position 12 to 0ms at position 13.
\<close>

theorem delay_monotone_counterexample:
  "delay 12 14 100 = 1200 \<and> delay 13 14 100 = 0 \<and> \<not> delay 12 14 100 \<le> delay 13 14 100"
  by (simp add: delay_def animation_delay_nth animation_delay_beyond)

text \<open>
  C6 (amended): for every unit delay \<open>u > 0\<close> and every total count \<open>N \<le> 13\<close> the delays
  over the positions 1 to \<open>N\<close> are strictly increasing (so also non-decreasing), and for
  every total count they are strictly increasing over the positions up to 12.
\<close>

theorem delay_monotone:
  "0 < u \<Longrightarrow> 1 \<le> i \<Longrightarrow> i < j \<Longrightarrow> j \<le> N \<Longrightarrow> N \<le> 13 \<or> j \<le> 12 \<Longrightarrow>
   delay i N u < delay j N u"
proof -
  assume u: "0 < u" and i: "1 \<le> i" "i < j" and j: "j \<le> N" and b: "N \<le> 13 \<or> j \<le> 12"
  have di: "delay i N u = int i * u" and i12: "i \<le> 12"
    using i j b by (auto simp add: delay_def animation_delay_nth)
  show ?thesis
  proof (cases "j = N")
    case True
    then have "delay j N u = 13 * u"
      by (simp add: delay_def animation_delay_last)
    with di i12 u show ?thesis
      by simp
  next
    case False
    with i j b have "delay j N u = int j * u"
      by (auto simp add: delay_def animation_delay_nth)
    with di i u show ?thesis
      by simp
  qed
qed

theorem delay_monotone_witness:
  "delay 4 5 100 < delay 5 5 100 \<and> delay 11 20 100 < delay 12 20 100"
  using delay_monotone [of 100 4 5 5] delay_monotone [of 100 11 12 20] by simp

text \<open>
  C10, as the claim states it, fails where the unit delay is not positive: the last of 5
  items has 13 times the unit as its delay, which for a unit of 0ms equals 5 times the
  unit and for a unit of -50ms, -650ms, is below it.
\<close>

theorem delay_last_exceeds_counterexample:
  "delay 5 5 0 = 0 \<and> \<not> int 5 * 0 < delay 5 5 0
   \<and> delay 5 5 (- 50) = - 650 \<and> \<not> int 5 * (- 50) < delay 5 5 (- 50)"
  by (simp add: delay_def animation_delay_last)

text \<open>
  C10 (amended): for every total count \<open>N \<ge> 1\<close> and every unit delay the animation delay
  of the last item is 13 times the unit delay, whatever \<open>N\<close> is; for \<open>N < 13\<close> and a unit
  delay \<open>u > 0\<close> it exceeds \<open>N\<close> times the unit.
\<close>

theorem delay_last_is_thirteen_units:
  "1 \<le> N \<Longrightarrow> delay N N u = 13 * u \<and> (N < 13 \<and> 0 < u \<longrightarrow> int N * u < delay N N u)"
  by (simp add: delay_def animation_delay_last)

theorem delay_last_is_thirteen_units_witness:
  "delay 5 5 50 = 13 * 50 \<and> int 5 * 50 < delay 5 5 50"
  using delay_last_is_thirteen_units [of 5 50] by simp

text \<open>
  C8, as the claim states it, fails for a non-positive unit delay: with a unit of -50ms
  the first of 13 items has a delay of -50ms, not the 100ms of the default.
\<close>

theorem unit_default_counterexample:
  "delay 1 13 (- 50) = - 50 \<and> delay 1 13 (- 50) \<noteq> delay 1 13 100"
  by (simp add: delay_def animation_delay_nth)

text \<open>
  C8 (amended): the stylesheet itself declares the unit delay, 100ms, on the grid
  container, so a card of a container whose unit delay nothing else specifies has the
  delay computed from 100ms. The computation has no fallback of its own: a non-positive
  unit delay is used as it is (item \<open>i\<close> of the twelve positional ones has delay \<open>i * u\<close>),
  and a card that inherits no unit delay at all has the initial delay 0ms.
\<close>

theorem unit_default:
  "custom_property animated_grid ''--stagger-delay'' = Some 100
   \<and> (1 \<le> i \<and> i \<le> 12 \<and> i \<noteq> N \<longrightarrow>
        animation_delay (card_elem i N (custom_property animated_grid)) = int i * 100)
   \<and> (u \<le> 0 \<and> 1 \<le> i \<and> i \<le> 12 \<and> i \<noteq> N \<longrightarrow> delay i N u = int i * u)
   \<and> (vars ''--stagger-delay'' = None \<longrightarrow> animation_delay (card_elem i N vars) = 0)"
proof -
  have "vars ''--stagger-delay'' = None \<Longrightarrow> animation_delay (card_elem i N vars) = 0"
    by (cases "i = N"; cases "1 \<le> i \<and> i \<le> 12")
       (simp_all add: animation_delay_last animation_delay_nth animation_delay_beyond)
  then show ?thesis
    by (simp add: custom_property_animated_grid delay_def animation_delay_nth)
qed

theorem unit_default_witness:
  "animation_delay (card_elem 3 13 (custom_property animated_grid)) = 300
   \<and> delay 3 13 (- 50) = - 150
   \<and> animation_delay (card_elem 3 13 Map.empty) = 0"
  using unit_default [of 3 13 "- 50" Map.empty] by simp

text \<open>
  C9: the region and the delay of an item are functions of its position, of the total
  count and of the unit delay only: two cards at the same position among the same
  number of items, in containers with the same unit delay, have the same grid area and
  the same animation delay, whatever else the containers define.
\<close>

theorem region_delay_deterministic:
  "vars1 ''--stagger-delay'' = vars2 ''--stagger-delay'' \<Longrightarrow>
   grid_area (card_elem i N vars1) = grid_area (card_elem i N vars2)
   \<and> animation_delay (card_elem i N vars1) = animation_delay (card_elem i N vars2)"
proof -
  assume same: "vars1 ''--stagger-delay'' = vars2 ''--stagger-delay''"
  consider "i = N" | "i \<noteq> N" "1 \<le> i \<and> i \<le> 12" | "i \<noteq> N" "\<not> (1 \<le> i \<and> i \<le> 12)"
    by blast
  then show ?thesis
  proof cases
    case 1
    with same show ?thesis
      by (simp add: grid_area_last animation_delay_last)
  next
    case 2
    with same show ?thesis
      by (simp add: grid_area_nth animation_delay_nth)
  next
    case 3
    then show ?thesis
      by (simp add: grid_area_beyond animation_delay_beyond)
  qed
qed

theorem region_delay_deterministic_witness:
  "grid_area (card_elem 4 13 [''--stagger-delay'' \<mapsto> 100, ''--accent'' \<mapsto> 7])
     = grid_area (card_elem 4 13 [''--stagger-delay'' \<mapsto> 100])
   \<and> animation_delay (card_elem 4 13 [''--stagger-delay'' \<mapsto> 100, ''--accent'' \<mapsto> 7])
     = animation_delay (card_elem 4 13 [''--stagger-delay'' \<mapsto> 100])"
  using region_delay_deterministic
    [of "[''--stagger-delay'' \<mapsto> 100, ''--accent'' \<mapsto> 7]" "[''--stagger-delay'' \<mapsto> 100]" 4 13]
  by simp

section \<open>The entry animation\<close>

text \<open>
  C7: every card, at every position, has the same entry animation: the keyframes
  \<^verbatim>\<open>cardEffect\<close>, from opacity 0, scale 0.3 and a hue rotation of 180 degrees to opacity
  1, scale 1 and a hue rotation of 0 degrees, over 700ms with the ease-out curve and
  fill mode backwards, under which the card shows the first keyframe while its delay
  runs. None of these depends on the position, the count or the unit delay.
\<close>

theorem entry_animation_uniform:
  "entry_animation (card_elem i N vars) =
     \<lparr>anim_keyframes =
        Some \<lparr>kf_from = \<lparr>opacity = 0, scale = 3 / 10, hue_rotate = 180\<rparr>,
              kf_to = \<lparr>opacity = 1, scale = 1, hue_rotate = 0\<rparr>\<rparr>,
      anim_duration = 700, anim_timing = EaseOut, anim_fill = Backwards\<rparr>
   \<and> pending_style (entry_animation (card_elem i N vars))
       = Some \<lparr>opacity = 0, scale = 3 / 10, hue_rotate = 180\<rparr>
   \<and> entry_animation (card_elem i N vars) = entry_animation (card_elem j M vars')"
  by (simp add: entry_animation_card_elem pending_style_def cardEffect_def)

end
